theory Spec2Isabelle
  imports Main
begin

section \<open>Python strings\<close>

text \<open>
  A Python \<open>str\<close> is a sequence of Unicode code points, and every string operation of
  \<open>text2ipa.py\<close> (\<open>isdigit\<close>, \<open>split\<close>, \<open>strip\<close>, \<open>join\<close>, iteration) works on code
  points. A string is therefore a list of code points (natural numbers), not a list of
  bytes. \<open>ustr\<close> writes an ASCII literal as such a list; the IPA glyphs of the table are
  given by their code points.
\<close>

type_synonym pystr = "nat list"

definition ustr :: "string \<Rightarrow> pystr" where
  "ustr s = map of_char s"

text \<open>
  \<open>str.split()\<close>, \<open>str.strip()\<close> without arguments use CPython's whitespace predicate on
  code points (\<open>Py_UNICODE_ISSPACE\<close>): U+0009..U+000D, U+001C..U+0020, U+0085, U+00A0,
  U+1680, U+2000..U+200A, U+2028, U+2029, U+202F, U+205F, U+3000.
\<close>

definition isspace :: "nat \<Rightarrow> bool" where
  "isspace c \<longleftrightarrow>
     (0x09 \<le> c \<and> c \<le> 0x0D) \<or> (0x1C \<le> c \<and> c \<le> 0x20) \<or> c = 0x85 \<or> c = 0xA0 \<or>
     c = 0x1680 \<or> (0x2000 \<le> c \<and> c \<le> 0x200A) \<or> c = 0x2028 \<or> c = 0x2029 \<or>
     c = 0x202F \<or> c = 0x205F \<or> c = 0x3000"

text \<open>
  \<open>c.isdigit()\<close> holds for the code points whose Unicode Numeric_Type is Decimal or
  Digit: the ASCII digits, and also superscripts, circled digits and the decimal digits of
  other scripts. The ranges are those of Unicode 14.0 (CPython 3.11).
\<close>

definition digit_ranges :: "(nat \<times> nat) list" where
  "digit_ranges = [
    (0x30, 0x39), (0xB2, 0xB3), (0xB9, 0xB9), (0x660, 0x669), (0x6F0, 0x6F9), (0x7C0,
    0x7C9), (0x966, 0x96F), (0x9E6, 0x9EF), (0xA66, 0xA6F), (0xAE6, 0xAEF), (0xB66,
    0xB6F), (0xBE6, 0xBEF), (0xC66, 0xC6F), (0xCE6, 0xCEF), (0xD66, 0xD6F), (0xDE6,
    0xDEF), (0xE50, 0xE59), (0xED0, 0xED9), (0xF20, 0xF29), (0x1040, 0x1049), (0x1090,
    0x1099), (0x1369, 0x1371), (0x17E0, 0x17E9), (0x1810, 0x1819), (0x1946, 0x194F),
    (0x19D0, 0x19DA), (0x1A80, 0x1A89), (0x1A90, 0x1A99), (0x1B50, 0x1B59), (0x1BB0,
    0x1BB9), (0x1C40, 0x1C49), (0x1C50, 0x1C59), (0x2070, 0x2070), (0x2074, 0x2079),
    (0x2080, 0x2089), (0x2460, 0x2468), (0x2474, 0x247C), (0x2488, 0x2490), (0x24EA,
    0x24EA), (0x24F5, 0x24FD), (0x24FF, 0x24FF), (0x2776, 0x277E), (0x2780, 0x2788),
    (0x278A, 0x2792), (0xA620, 0xA629), (0xA8D0, 0xA8D9), (0xA900, 0xA909), (0xA9D0,
    0xA9D9), (0xA9F0, 0xA9F9), (0xAA50, 0xAA59), (0xABF0, 0xABF9), (0xFF10, 0xFF19),
    (0x104A0, 0x104A9), (0x10A40, 0x10A43), (0x10D30, 0x10D39), (0x10E60, 0x10E68),
    (0x11052, 0x1105A), (0x11066, 0x1106F), (0x110F0, 0x110F9), (0x11136, 0x1113F),
    (0x111D0, 0x111D9), (0x112F0, 0x112F9), (0x11450, 0x11459), (0x114D0, 0x114D9),
    (0x11650, 0x11659), (0x116C0, 0x116C9), (0x11730, 0x11739), (0x118E0, 0x118E9),
    (0x11950, 0x11959), (0x11C50, 0x11C59), (0x11D50, 0x11D59), (0x11DA0, 0x11DA9),
    (0x16A60, 0x16A69), (0x16AC0, 0x16AC9), (0x16B50, 0x16B59), (0x1D7CE, 0x1D7FF),
    (0x1E140, 0x1E149), (0x1E2F0, 0x1E2F9), (0x1E950, 0x1E959), (0x1F100, 0x1F10A),
    (0x1FBF0, 0x1FBF9)]"

definition isdigit :: "nat \<Rightarrow> bool" where
  "isdigit c = list_ex (\<lambda>(lo, hi). lo \<le> c \<and> c \<le> hi) digit_ranges"

text \<open>\<open>sep.join(xs)\<close>: the strings of \<open>xs\<close> with \<open>sep\<close> between neighbours.\<close>

fun str_join :: "pystr \<Rightarrow> pystr list \<Rightarrow> pystr" where
  "str_join sep [] = []"
| "str_join sep [x] = x"
| "str_join sep (x # y # ys) = x @ sep @ str_join sep (y # ys)"

text \<open>
  \<open>s.split()\<close> without arguments: the maximal runs of non-whitespace code points, in
  order; runs of whitespace separate them and no empty string is produced. \<open>split_from\<close>
  scans the string with the token read so far in \<open>cur\<close>.
\<close>

fun split_from :: "pystr \<Rightarrow> pystr \<Rightarrow> pystr list" where
  "split_from cur [] = (if cur = [] then [] else [cur])"
| "split_from cur (c # cs) =
     (if isspace c then (if cur = [] then split_from [] cs else cur # split_from [] cs)
      else split_from (cur @ [c]) cs)"

definition str_split :: "pystr \<Rightarrow> pystr list" where
  "str_split s = split_from [] s"

text \<open>\<open>s.strip()\<close>: leading and trailing whitespace removed.\<close>

definition str_strip :: "pystr \<Rightarrow> pystr" where
  "str_strip s = rev (dropWhile isspace (rev (dropWhile isspace s)))"

text \<open>\<open>s.replace("\n", " ")\<close>: every line feed becomes a space.\<close>

definition replace_newlines :: "pystr \<Rightarrow> pystr" where
  "replace_newlines s = map (\<lambda>c. if c = 0x0A then 0x20 else c) s"

text \<open>
  \<open>str.lower()\<close> is Python's full Unicode lower-casing (context-sensitive, and able to
  change the length of a string); the program only passes its result on, so the model
  takes it as the parameter \<open>lower\<close> of every function that calls it. \<open>ascii_lower\<close>
  is its restriction to ASCII letters, used to run the model on ASCII input.
\<close>

definition ascii_lower :: "pystr \<Rightarrow> pystr" where
  "ascii_lower s = map (\<lambda>c. if 0x41 \<le> c \<and> c \<le> 0x5A then c + 0x20 else c) s"

section \<open>The symbol table and the symbol translator\<close>

text \<open>The dictionary literal \<open>ARPABET_TO_IPA\<close>, entry by entry in source order.\<close>

definition ARPABET_TO_IPA_items :: "(pystr \<times> pystr) list" where
  "ARPABET_TO_IPA_items = [
    (ustr ''P'', [0x70]), (ustr ''B'', [0x62]), (ustr ''T'', [0x74]), (ustr ''D'', [0x64]),
    (ustr ''K'', [0x6B]), (ustr ''G'', [0x261]),
    (ustr ''CH'', [0x74, 0x361, 0x283]), (ustr ''JH'', [0x64, 0x361, 0x292]),
    (ustr ''F'', [0x66]), (ustr ''V'', [0x76]), (ustr ''TH'', [0x3B8]), (ustr ''DH'', [0xF0]),
    (ustr ''S'', [0x73]), (ustr ''Z'', [0x7A]), (ustr ''SH'', [0x283]), (ustr ''ZH'', [0x292]),
    (ustr ''HH'', [0x68]), (ustr ''M'', [0x6D]), (ustr ''N'', [0x6E]), (ustr ''NG'', [0x14B]),
    (ustr ''L'', [0x6C]), (ustr ''R'', [0x279]), (ustr ''Y'', [0x6A]), (ustr ''W'', [0x77]),
    (ustr ''AA'', [0x251]), (ustr ''AE'', [0xE6]), (ustr ''AH'', [0x28C]), (ustr ''AO'', [0x254]),
    (ustr ''AW'', [0x61, 0x28A]), (ustr ''AY'', [0x61, 0x26A]),
    (ustr ''EH'', [0x25B]), (ustr ''ER'', [0x25D]), (ustr ''EY'', [0x65, 0x26A]),
    (ustr ''IH'', [0x26A]), (ustr ''IY'', [0x69]),
    (ustr ''OW'', [0x6F, 0x28A]), (ustr ''OY'', [0x254, 0x26A]),
    (ustr ''UH'', [0x28A]), (ustr ''UW'', [0x75])]"

definition ARPABET_TO_IPA :: "pystr \<rightharpoonup> pystr" where
  "ARPABET_TO_IPA = map_of ARPABET_TO_IPA_items"

text \<open>
  \<open>_arpabet_symbol_to_ipa\<close> (the leading underscore is dropped, an Isabelle name cannot
  start with one): the digits are filtered out of the symbol, the rest is looked up with
  \<open>dict.get\<close>, whose default is the lower-cased rest.
\<close>

definition arpabet_symbol_to_ipa :: "(pystr \<Rightarrow> pystr) \<Rightarrow> pystr \<Rightarrow> pystr" where
  "arpabet_symbol_to_ipa lower symb =
     (let base = filter (\<lambda>c. \<not> isdigit c) symb
      in case ARPABET_TO_IPA base of Some v \<Rightarrow> v | None \<Rightarrow> lower base)"

definition arpabet_list_to_ipa :: "(pystr \<Rightarrow> pystr) \<Rightarrow> pystr list \<Rightarrow> pystr" where
  "arpabet_list_to_ipa lower arpa = str_join (ustr '' '') (map (arpabet_symbol_to_ipa lower) arpa)"

section \<open>Collaborators, errors and observable effects\<close>

text \<open>
  The two optional modules are module-level names that are \<open>None\<close> when the import
  failed. \<open>ipa\<close> stands for \<open>eng_to_ipa\<close> through its function \<open>convert\<close>, which returns a
  string or raises; \<open>pronouncing\<close> through its function \<open>phones_for_word\<close>, which returns
  the list of candidate pronunciations (calls of the dictionary are taken to return
  normally). Both are parameters of the functions that read them.
\<close>

datatype exn = RuntimeError string | FileNotFoundError | KeyError pystr | OtherException string

datatype convert_result = Returned pystr | Raised exn

type_synonym ipa_module = "(pystr \<Rightarrow> convert_result) option"

type_synonym pronouncing_module = "(pystr \<Rightarrow> pystr list) option"

text \<open>
  What a run does besides returning: the calls of the collaborators and of the fallback
  converter, and the lines written to the two output streams, in order.
\<close>

datatype event =
    Convert pystr                    \<comment> \<open>\<open>ipa.convert(text)\<close> is called\<close>
  | Fallback "pystr list"            \<comment> \<open>\<open>words_to_ipa_with_pronouncing(words)\<close> is called\<close>
  | Phones_for_word pystr            \<comment> \<open>\<open>pronouncing.phones_for_word(w)\<close> is called\<close>
  | Debug_phones pystr "pystr list"  \<comment> \<open>stderr: \<open>[debug] w -> phones\<close>\<close>
  | Debug_failed exn                 \<comment> \<open>stderr: \<open>[debug] eng_to_ipa failed: e\<close>\<close>
  | Print pystr                      \<comment> \<open>stdout: one line\<close>
  | Print_help                       \<comment> \<open>stderr: the help text\<close>
  | Warn_no_lines                    \<comment> \<open>stderr: \<open>[warn] No non-empty lines found.\<close>\<close>
  | Error_file_not_found "pystr option"  \<comment> \<open>stderr: \<open>[error] File not found: path\<close>\<close>
  | Error_line exn                   \<comment> \<open>stderr: \<open>[error] e\<close>\<close>

section \<open>The symbol translator with its error and effect channels\<close>

text \<open>
  The two reads of a Python dictionary. The subscription \<open>d[k]\<close> raises \<open>KeyError\<close> when
  the key is missing. \<open>d.get(k, default)\<close> is the same read with the missing key
  handled: it gives \<open>default\<close> instead of raising. Neither read changes the dictionary
  (unlike \<open>d.setdefault\<close>, which stores the default).
\<close>

definition dict_getitem :: "(pystr \<rightharpoonup> pystr) \<Rightarrow> pystr \<Rightarrow> exn + pystr" where
  "dict_getitem d k = (case d k of None \<Rightarrow> Inl (KeyError k) | Some v \<Rightarrow> Inr v)"

definition dict_get :: "(pystr \<rightharpoonup> pystr) \<Rightarrow> pystr \<Rightarrow> pystr \<Rightarrow> exn + pystr" where
  "dict_get d k dflt = (case dict_getitem d k of Inl e \<Rightarrow> Inr dflt | Inr v \<Rightarrow> Inr v)"

text \<open>
  A call of \<open>_arpabet_symbol_to_ipa\<close> as a run of the program: it starts with the
  contents of the module-level dictionary \<open>ARPABET_TO_IPA\<close> in \<open>table\<close>, and gives the
  contents of that dictionary afterwards, the effects of the call, and the value returned
  or the exception raised. The body has two statements: the digits are filtered out, and
  the rest is read from the dictionary with \<open>get\<close>; it assigns to no global and prints
  nothing.
\<close>

definition arpabet_symbol_to_ipa_run ::
  "(pystr \<Rightarrow> pystr) \<Rightarrow> (pystr \<rightharpoonup> pystr) \<Rightarrow> pystr \<Rightarrow>
   (pystr \<rightharpoonup> pystr) \<times> event list \<times> (exn + pystr)" where
  "arpabet_symbol_to_ipa_run lower table symb =
     (let base = filter (\<lambda>c. \<not> isdigit c) symb
      in (table, [], dict_get table base (lower base)))"

section \<open>The word-level fallback\<close>

definition pronouncing_missing :: exn where
  "pronouncing_missing =
     RuntimeError (''Module '' @ [CHR 0x27] @ ''pronouncing'' @ [CHR 0x27] @
                   '' not available and eng_to_ipa failed.'')"

text \<open>
  The \<open>for w in words\<close> loop of \<open>words_to_ipa_with_pronouncing\<close>, with the effects so far in
  \<open>tr\<close> and the list \<open>out_words\<close> as it grows.
\<close>

fun words_loop ::
  "(pystr \<Rightarrow> pystr) \<Rightarrow> (pystr \<Rightarrow> pystr list) \<Rightarrow> bool \<Rightarrow> pystr list \<Rightarrow>
   event list \<Rightarrow> pystr list \<Rightarrow> event list \<times> pystr list" where
  "words_loop lower phones_for_word debug [] tr out_words = (tr, out_words)"
| "words_loop lower phones_for_word debug (w # ws) tr out_words =
     (let phones = phones_for_word (lower w);
          tr' = tr @ [Phones_for_word (lower w)] @ (if debug then [Debug_phones w phones] else [])
      in case phones of
           p # _ \<Rightarrow>
             (let arpa = str_split p
              in words_loop lower phones_for_word debug ws tr'
                   (out_words @ [arpabet_list_to_ipa lower arpa]))
         | [] \<Rightarrow> words_loop lower phones_for_word debug ws tr' (out_words @ [w]))"

definition words_to_ipa_with_pronouncing ::
  "(pystr \<Rightarrow> pystr) \<Rightarrow> pronouncing_module \<Rightarrow> pystr list \<Rightarrow> bool \<Rightarrow>
   event list \<times> (exn + pystr)" where
  "words_to_ipa_with_pronouncing lower pronouncing words debug =
     (case pronouncing of
        None \<Rightarrow> ([], Inl pronouncing_missing)
      | Some phones_for_word \<Rightarrow>
          (case words_loop lower phones_for_word debug words [] [] of
             (tr, out_words) \<Rightarrow> (tr, Inr (str_join (ustr '' '') out_words))))"

section \<open>The phrase converter\<close>

text \<open>
  \<open>try_primary\<close> is the \<open>if ipa is not None: try: ... except Exception\<close> block: the
  effects, and the value returned from inside it if any.
\<close>

definition try_primary :: "ipa_module \<Rightarrow> pystr \<Rightarrow> bool \<Rightarrow> event list \<times> pystr option" where
  "try_primary ipa text debug =
     (case ipa of
        None \<Rightarrow> ([], None)
      | Some convert \<Rightarrow>
          (case convert text of
             Returned res \<Rightarrow>
               (if res \<noteq> [] \<and> str_strip res \<noteq> [] then ([Convert text], Some (str_strip res))
                else ([Convert text], None))
           | Raised e \<Rightarrow> ([Convert text] @ (if debug then [Debug_failed e] else []), None)))"

definition text_to_ipa ::
  "(pystr \<Rightarrow> pystr) \<Rightarrow> ipa_module \<Rightarrow> pronouncing_module \<Rightarrow> pystr \<Rightarrow> pystr \<Rightarrow> bool \<Rightarrow>
   event list \<times> (exn + pystr)" where
  "text_to_ipa lower ipa pronouncing text0 sep debug =
     (let text = str_strip text0
      in if text = [] then ([], Inr [])
         else
           (case try_primary ipa text debug of
              (tr1, Some res) \<Rightarrow> (tr1, Inr res)
            | (tr1, None) \<Rightarrow>
                (let words = filter (\<lambda>w. w \<noteq> []) (str_split (replace_newlines text))
                 in case words_to_ipa_with_pronouncing lower pronouncing words debug of
                      (tr2, Inl e) \<Rightarrow> (tr1 @ [Fallback words] @ tr2, Inl e)
                    | (tr2, Inr ipa_fallback) \<Rightarrow>
                        (tr1 @ [Fallback words] @ tr2,
                         Inr (str_join sep (str_split ipa_fallback))))))"

section \<open>The command line\<close>

text \<open>
  The namespace that \<open>argparse\<close> returns: \<open>--text\<close> and \<open>--file\<close> are \<open>None\<close> when not
  given, \<open>--sep\<close> defaults to one space and \<open>--debug\<close> to false. \<open>truthy\<close> is Python's
  truth value of such an optional string: \<open>None\<close> and the empty string are false.
\<close>

record args =
  args_text :: "pystr option"
  args_file :: "pystr option"
  args_sep :: pystr
  args_debug :: bool

fun truthy :: "pystr option \<Rightarrow> bool" where
  "truthy None = False"
| "truthy (Some s) = (s \<noteq> [])"

text \<open>What \<open>open(args.file)\<close> and reading the file give: its lines, or an exception.\<close>

datatype open_result = Lines "pystr list" | Open_raised exn

text \<open>
  The \<open>for line in fh\<close> loop of the file mode, with \<open>count\<close> as it grows. An exception of
  \<open>text_to_ipa\<close> leaves the loop, after the lines printed so far; otherwise the loop ends
  with the final \<open>count\<close>.
\<close>

fun file_loop ::
  "(pystr \<Rightarrow> pystr) \<Rightarrow> ipa_module \<Rightarrow> pronouncing_module \<Rightarrow> pystr \<Rightarrow> bool \<Rightarrow>
   pystr list \<Rightarrow> nat \<Rightarrow> event list \<times> (exn + nat)" where
  "file_loop lower ipa pronouncing sep debug [] count = ([], Inr count)"
| "file_loop lower ipa pronouncing sep debug (line # rest) count =
     (let phrase = str_strip line
      in if phrase = [] then file_loop lower ipa pronouncing sep debug rest count
         else
           (case text_to_ipa lower ipa pronouncing phrase sep debug of
              (tr, Inl e) \<Rightarrow> (tr, Inl e)
            | (tr, Inr r) \<Rightarrow>
                (case file_loop lower ipa pronouncing sep debug rest (count + 1) of
                   (tr', res) \<Rightarrow> (tr @ [Print r] @ tr', res))))"

text \<open>The two \<open>except\<close> clauses at the end of \<open>main\<close>: the message and exit code 1.\<close>

definition except_handler :: "pystr option \<Rightarrow> exn \<Rightarrow> event list \<times> nat" where
  "except_handler file e =
     (case e of
        FileNotFoundError \<Rightarrow> ([Error_file_not_found file], 1)
      | _ \<Rightarrow> ([Error_line e], 1))"

text \<open>
  \<open>main\<close>: the effects of the run and the exit code of the process (0 when \<open>main\<close>
  returns). \<open>the\<close> is applied only under the guard \<open>truthy\<close>, where the option is
  \<open>Some\<close>.
\<close>

definition main ::
  "(pystr \<Rightarrow> pystr) \<Rightarrow> ipa_module \<Rightarrow> pronouncing_module \<Rightarrow> (pystr \<Rightarrow> open_result) \<Rightarrow> args \<Rightarrow>
   event list \<times> nat" where
  "main lower ipa pronouncing open_file a =
     (if \<not> truthy (args_text a) \<and> \<not> truthy (args_file a) then ([Print_help], 2)
      else if truthy (args_text a) then
        (case text_to_ipa lower ipa pronouncing (the (args_text a)) (args_sep a) (args_debug a) of
           (tr, Inl e) \<Rightarrow> (case except_handler (args_file a) e of (tr', code) \<Rightarrow> (tr @ tr', code))
         | (tr, Inr r) \<Rightarrow> (tr @ [Print r], 0))
      else
        (case open_file (the (args_file a)) of
           Open_raised e \<Rightarrow> except_handler (args_file a) e
         | Lines ls \<Rightarrow>
             (case file_loop lower ipa pronouncing (args_sep a) (args_debug a) ls 0 of
                (tr, Inl e) \<Rightarrow>
                  (case except_handler (args_file a) e of (tr', code) \<Rightarrow> (tr @ tr', code))
              | (tr, Inr count) \<Rightarrow> (tr @ (if count = 0 then [Warn_no_lines] else []), 0))))"

section \<open>A test dictionary\<close>

text \<open>
  The dictionary of the specification's scenario: the word \<open>cat\<close> has the single
  candidate pronunciation \<open>K AE1 T\<close>, every other word is unknown.
\<close>

definition cat_dict :: "pystr \<Rightarrow> pystr list" where
  "cat_dict w = (if w = ustr ''cat'' then [ustr ''K AE1 T''] else [])"

section \<open>Facts about the string operations\<close>

lemma isspace_space: "isspace 0x20"
  by (simp add: isspace_def)
lemma isspace_newline: "isspace 0x0A"
  by (simp add: isspace_def)
lemma ustr_space: "ustr '' '' = [0x20]"
  by (simp add: ustr_def)

lemma split_from_append_space:
  "isspace sp \<Longrightarrow> split_from cur (xs @ sp # ys) = split_from cur xs @ split_from [] ys"
  by (induction xs arbitrary: cur) simp_all

lemma split_from_spaces: "list_all isspace ws \<Longrightarrow> split_from cur ws = split_from cur []"
  by (induction ws arbitrary: cur) simp_all

lemma split_from_append_spaces:
  "list_all isspace ws \<Longrightarrow> split_from cur (xs @ ws) = split_from cur xs"
  by (induction xs arbitrary: cur) (simp_all add: split_from_spaces)

lemma split_from_nonempty: "[] \<notin> set (split_from cur s)"
  by (induction s arbitrary: cur) simp_all

lemma split_from_no_space:
  "list_all (\<lambda>c. \<not> isspace c) cur \<Longrightarrow>
   list_all (list_all (\<lambda>c. \<not> isspace c)) (split_from cur s)"
  by (induction s arbitrary: cur) simp_all

lemma split_from_token:
  "list_all (\<lambda>c. \<not> isspace c) w \<Longrightarrow> cur @ w \<noteq> [] \<Longrightarrow> split_from cur w = [cur @ w]"
proof (induction w arbitrary: cur)
  case Nil
  then show ?case by simp
next
  case (Cons a w)
  have "split_from (cur @ [a]) w = [(cur @ [a]) @ w]"
    using Cons.prems by (intro Cons.IH) simp_all
  then show ?case using Cons.prems by simp
qed

lemma str_split_token:
  assumes "w \<in> set (str_split s)"
  shows "str_split w = [w]"
proof -
  have mem: "w \<in> set (split_from [] s)" using assms by (simp add: str_split_def)
  then have "w \<noteq> []"
    using split_from_nonempty [of "[]" s] by blast
  moreover have "list_all (\<lambda>c. \<not> isspace c) w"
    using mem split_from_no_space [of "[]" s] by (simp add: list_all_iff)
  ultimately show ?thesis
    using split_from_token [of w "[]"] by (simp add: str_split_def)
qed

lemma str_split_filter: "filter (\<lambda>w. w \<noteq> []) (str_split s) = str_split s"
proof -
  have "\<forall>w\<in>set (str_split s). w \<noteq> []"
    using split_from_nonempty [of "[]" s] unfolding str_split_def by blast
  then show ?thesis by (simp only: filter_id_conv)
qed

lemma split_from_dropWhile: "split_from [] (dropWhile isspace s) = split_from [] s"
  by (induction s) simp_all

lemma str_split_strip: "str_split (str_strip s) = str_split s"
proof -
  let ?t = "dropWhile isspace s"
  have "?t = rev (dropWhile isspace (rev ?t)) @ rev (takeWhile isspace (rev ?t))"
    by (metis rev_append rev_rev_ident takeWhile_dropWhile_id)
  moreover have "list_all isspace (rev (takeWhile isspace (rev ?t)))"
    by (auto simp: list_all_iff dest: set_takeWhileD)
  ultimately have "split_from [] ?t = split_from [] (rev (dropWhile isspace (rev ?t)))"
    using split_from_append_spaces by metis
  then show ?thesis
    by (simp add: str_split_def str_strip_def split_from_dropWhile)
qed

lemma split_from_replace: "split_from cur (replace_newlines s) = split_from cur s"
  unfolding replace_newlines_def
  by (induction s arbitrary: cur) (simp_all add: isspace_newline isspace_space)

lemma str_split_replace: "str_split (replace_newlines s) = str_split s"
  by (simp add: str_split_def split_from_replace)

lemma str_split_join:
  "isspace sp \<Longrightarrow> str_split (str_join [sp] xs) = concat (map str_split xs)"
proof (induction xs)
  case Nil
  then show ?case by (simp add: str_split_def)
next
  case (Cons x xs)
  show ?case
  proof (cases xs)
    case Nil
    then show ?thesis by simp
  next
    case tl: (Cons y ys)
    then show ?thesis
      using Cons.IH Cons.prems split_from_append_space [of sp "[]" x "str_join [sp] (y # ys)"]
      by (simp add: str_split_def)
  qed
qed

lemma dropWhile_all: "list_all P (dropWhile P s) \<longleftrightarrow> list_all P s"
  by (induction s) simp_all

lemma str_strip_empty: "str_strip s = [] \<longleftrightarrow> list_all isspace s"
  by (simp add: str_strip_def dropWhile_all list_all_iff [symmetric])

lemma isdigit_012: "isdigit 0x30" "isdigit 0x31" "isdigit 0x32"
  by (simp_all add: isdigit_def digit_ranges_def)

section \<open>The loop of the fallback as a map over the words\<close>

lemma words_loop_eq:
  "words_loop lower pfw debug ws tr out_words =
     (tr @ concat (map (\<lambda>w. Phones_for_word (lower w) #
                              (if debug then [Debug_phones w (pfw (lower w))] else [])) ws),
      out_words @ map (\<lambda>w. case pfw (lower w) of
                               [] \<Rightarrow> w
                             | p # _ \<Rightarrow> arpabet_list_to_ipa lower (str_split p)) ws)"
proof (cases debug)
  case True
  then show ?thesis
    by (induction ws arbitrary: tr out_words) (simp_all add: Let_def split: list.split)
next
  case False
  then show ?thesis
    by (induction ws arbitrary: tr out_words) (simp_all add: Let_def split: list.split)
qed

lemma words_of_text:
  "filter (\<lambda>w. w \<noteq> []) (str_split (replace_newlines (str_strip text))) = str_split text"
  by (simp only: str_split_filter str_split_replace str_split_strip)

lemma str_split_word_ipa:
  assumes "w \<in> set (str_split text)"
  shows "str_split (case pfw (lower w) of
                      [] \<Rightarrow> w
                    | p # _ \<Rightarrow> arpabet_list_to_ipa lower (str_split p)) =
         (case pfw (lower w) of
            [] \<Rightarrow> [w]
          | p # _ \<Rightarrow> concat (map (\<lambda>symb. str_split (arpabet_symbol_to_ipa lower symb))
                                  (str_split p)))"
proof (cases "pfw (lower w)")
  case Nil
  then show ?thesis using assms by (simp add: str_split_token)
next
  case (Cons p ps)
  then show ?thesis
    by (simp add: arpabet_list_to_ipa_def ustr_space str_split_join isspace_space comp_def)
qed

lemma fallback_tokens:
  "words_to_ipa_with_pronouncing lower (Some pfw) (str_split text) debug = (tr, Inr out) \<Longrightarrow>
   str_split out =
     concat (map (\<lambda>w. case pfw (lower w) of
                         [] \<Rightarrow> [w]
                       | p # _ \<Rightarrow> concat (map (\<lambda>symb. str_split (arpabet_symbol_to_ipa lower symb))
                                               (str_split p)))
                 (str_split text))"
proof -
  assume "words_to_ipa_with_pronouncing lower (Some pfw) (str_split text) debug = (tr, Inr out)"
  then have out: "out = str_join [0x20]
                    (map (\<lambda>w. case pfw (lower w) of
                                 [] \<Rightarrow> w
                               | p # _ \<Rightarrow> arpabet_list_to_ipa lower (str_split p))
                         (str_split text))"
    by (simp add: words_to_ipa_with_pronouncing_def words_loop_eq ustr_space)
  show ?thesis
    unfolding out
    by (simp add: str_split_join isspace_space comp_def str_split_word_ipa cong: map_cong)
qed

text \<open>The definitions that a run of the model on a concrete input unfolds.\<close>

lemmas eval_defs =
  text_to_ipa_def try_primary_def words_to_ipa_with_pronouncing_def Let_def
  arpabet_list_to_ipa_def arpabet_symbol_to_ipa_def ARPABET_TO_IPA_def
  ARPABET_TO_IPA_items_def ustr_def str_split_def str_strip_def
  replace_newlines_def isspace_def isdigit_def digit_ranges_def
  cat_dict_def ascii_lower_def

section \<open>Properties of the symbol translator\<close>

text \<open>
  Claim C3. A symbol that carries a stress digit \<open>0\<close>, \<open>1\<close> or \<open>2\<close> at its end is
  translated to exactly the string that the symbol without the digit is translated to.
  This holds for every symbol, in particular for each of the vowel symbols of the table
  (\<open>AE0\<close>, \<open>AE1\<close>, \<open>AE2\<close> all give what \<open>AE\<close> gives).
\<close>

theorem stress_digit_ignored:
  "d \<in> {0x30, 0x31, 0x32} \<Longrightarrow>
   arpabet_symbol_to_ipa lower (symb @ [d]) = arpabet_symbol_to_ipa lower symb"
  using isdigit_012 by (auto simp add: arpabet_symbol_to_ipa_def)

theorem stress_digit_ignored_witness:
  "arpabet_symbol_to_ipa ascii_lower (ustr ''AE1'') = arpabet_symbol_to_ipa ascii_lower (ustr ''AE'')"
  using stress_digit_ignored [of "0x31" ascii_lower "ustr ''AE''"] by (simp add: ustr_def)

text \<open>
  Claim C4, as stated: a symbol that is not a key of the table is returned lower-cased
  and otherwise unchanged. It fails for the symbol \<open>X1\<close>: it is not a key, and the
  translator returns \<open>x\<close>, not \<open>x1\<close>, because the digits are removed before the lookup
  and before the lower-casing.
\<close>

theorem unknown_symbol_counterexample:
  "ARPABET_TO_IPA (ustr ''X1'') = None \<and>
   arpabet_symbol_to_ipa ascii_lower (ustr ''X1'') = ustr ''x'' \<and>
   arpabet_symbol_to_ipa ascii_lower (ustr ''X1'') \<noteq> ascii_lower (ustr ''X1'')"
  by (simp add: arpabet_symbol_to_ipa_def ARPABET_TO_IPA_def ARPABET_TO_IPA_items_def
                ustr_def ascii_lower_def isdigit_def digit_ranges_def)

text \<open>
  Claim C4, amended. When the symbol with its digits removed is not a key of the table,
  the translator returns that digit-free form lower-cased. For a symbol without digits
  that is not a key this is the lower-cased input, unchanged otherwise.
\<close>

theorem unknown_symbol_lowercased:
  "(ARPABET_TO_IPA (filter (\<lambda>c. \<not> isdigit c) symb) = None \<longrightarrow>
      arpabet_symbol_to_ipa lower symb = lower (filter (\<lambda>c. \<not> isdigit c) symb)) \<and>
   (ARPABET_TO_IPA symb = None \<and> list_all (\<lambda>c. \<not> isdigit c) symb \<longrightarrow>
      arpabet_symbol_to_ipa lower symb = lower symb)"
  by (simp add: arpabet_symbol_to_ipa_def list_all_iff)

theorem unknown_symbol_lowercased_witness:
  "ARPABET_TO_IPA (filter (\<lambda>c. \<not> isdigit c) (ustr ''QX'')) = None \<and>
   ARPABET_TO_IPA (ustr ''QX'') = None \<and> list_all (\<lambda>c. \<not> isdigit c) (ustr ''QX'') \<and>
   arpabet_symbol_to_ipa ascii_lower (ustr ''QX'') = ustr ''qx''"
  using unknown_symbol_lowercased [of "ustr ''QX''" ascii_lower]
  by (simp add: ARPABET_TO_IPA_def ARPABET_TO_IPA_items_def ustr_def ascii_lower_def
                isdigit_def digit_ranges_def)

text \<open>
  The value of a run on the program's table is the value of the function
  \<open>arpabet_symbol_to_ipa\<close>, which the other functions of the model call.
\<close>

lemma arpabet_symbol_to_ipa_run_value:
  "arpabet_symbol_to_ipa_run lower ARPABET_TO_IPA symb =
     (ARPABET_TO_IPA, [], Inr (arpabet_symbol_to_ipa lower symb))"
  by (simp add: arpabet_symbol_to_ipa_run_def arpabet_symbol_to_ipa_def dict_get_def
                dict_getitem_def Let_def split: option.split)


section \<open>Properties of the word-level fallback\<close>

text \<open>
  Claim C5. With the dictionary available, the fallback converter returns the per-word
  renderings joined by single spaces, where a word whose lower-cased form has no
  candidate in the dictionary is rendered as the word itself, in its original case, and a
  word with candidates is rendered from the first candidate: split into symbols, each
  symbol translated, the translations joined by single spaces. The dictionary is asked
  once per word, in order, with the lower-cased word.
\<close>

theorem fallback_per_word:
  "words_to_ipa_with_pronouncing lower (Some phones_for_word) words debug =
     (concat (map (\<lambda>w. Phones_for_word (lower w) #
                         (if debug then [Debug_phones w (phones_for_word (lower w))] else []))
                  words),
      Inr (str_join (ustr '' '')
             (map (\<lambda>w. case phones_for_word (lower w) of
                          [] \<Rightarrow> w
                        | p # _ \<Rightarrow> str_join (ustr '' '')
                                     (map (arpabet_symbol_to_ipa lower) (str_split p)))
                  words)))"
  by (simp add: words_to_ipa_with_pronouncing_def words_loop_eq arpabet_list_to_ipa_def
           cong: list.case_cong)

text \<open>
  Claim C8. The fallback converter raises exactly when the dictionary module is missing
  (the calls of an available dictionary return normally). When it raises, it raises the
  \<open>RuntimeError\<close> before anything else happens: no dictionary call, no output, no result.
\<close>

theorem fallback_raises_iff:
  "(isl (snd (words_to_ipa_with_pronouncing lower pronouncing words debug)) \<longleftrightarrow>
      pronouncing = None) \<and>
   (pronouncing = None \<longrightarrow>
      words_to_ipa_with_pronouncing lower pronouncing words debug = ([], Inl pronouncing_missing))"
  by (cases pronouncing) (simp_all add: words_to_ipa_with_pronouncing_def split: prod.split)

theorem fallback_raises_iff_witness:
  "isl (snd (words_to_ipa_with_pronouncing ascii_lower None [ustr ''cat''] False)) \<and>
   words_to_ipa_with_pronouncing ascii_lower None [ustr ''cat''] False =
     ([], Inl pronouncing_missing) \<and>
   \<not> isl (snd (words_to_ipa_with_pronouncing ascii_lower (Some cat_dict) [ustr ''cat''] False))"
  using fallback_raises_iff [of ascii_lower None "[ustr ''cat'']" False]
        fallback_raises_iff [of ascii_lower "Some cat_dict" "[ustr ''cat'']" False]
  by simp

section \<open>Properties of the phrase converter\<close>

text \<open>
  Claim C6. For a phrase that is empty or consists of whitespace only, \<open>text_to_ipa\<close>
  returns the empty string and does nothing else: neither the primary converter nor the
  fallback is called, nothing is printed, and no error is raised, whatever the
  collaborators, the separator and the debug flag are.
\<close>

theorem blank_phrase_empty:
  "list_all isspace text \<Longrightarrow> text_to_ipa lower ipa pronouncing text sep debug = ([], Inr [])"
  by (simp add: text_to_ipa_def str_strip_empty)

theorem blank_phrase_empty_witness:
  "list_all isspace [0x20, 0x09, 0x0A] \<and>
   text_to_ipa ascii_lower (Some (\<lambda>t. Returned t)) None [0x20, 0x09, 0x0A] (ustr ''|'') True =
     ([], Inr [])"
  using blank_phrase_empty [of "[0x20, 0x09, 0x0A]" ascii_lower "Some (\<lambda>t. Returned t)" None
                               "ustr ''|''" True]
  by (simp add: isspace_def)

text \<open>
  Claim C7. Without the primary converter, with the default separator (one space) and a
  dictionary that gives the single candidate \<open>K AE1 T\<close> for \<open>cat\<close> (which lower-casing
  leaves as it is), the phrase \<open>cat\<close> is
  converted to \<open>k\<close>, \<open>ae\<close> ligature, \<open>t\<close> with single spaces between them: the code points
  U+006B, U+0020, U+00E6, U+0020, U+0074.
\<close>

theorem cat_scenario:
  "lower (ustr ''cat'') = ustr ''cat'' \<Longrightarrow> phones_for_word (ustr ''cat'') = [ustr ''K AE1 T''] \<Longrightarrow>
   snd (text_to_ipa lower None (Some phones_for_word) (ustr ''cat'') (ustr '' '') debug) =
     Inr [0x6B, 0x20, 0xE6, 0x20, 0x74]"
  by (simp add: text_to_ipa_def try_primary_def words_to_ipa_with_pronouncing_def Let_def
                arpabet_list_to_ipa_def arpabet_symbol_to_ipa_def ARPABET_TO_IPA_def
                ARPABET_TO_IPA_items_def ustr_def str_split_def str_strip_def
                replace_newlines_def isspace_def isdigit_def digit_ranges_def
           split: prod.split)

theorem cat_scenario_witness:
  "ascii_lower (ustr ''cat'') = ustr ''cat'' \<and> cat_dict (ustr ''cat'') = [ustr ''K AE1 T''] \<and>
   snd (text_to_ipa ascii_lower None (Some cat_dict) (ustr ''cat'') (ustr '' '') False) =
     Inr [0x6B, 0x20, 0xE6, 0x20, 0x74]"
proof -
  have h1: "ascii_lower (ustr ''cat'') = ustr ''cat''"
    by (simp add: ascii_lower_def ustr_def)
  have h2: "cat_dict (ustr ''cat'') = [ustr ''K AE1 T'']"
    by (simp add: cat_dict_def)
  show ?thesis
    using h1 h2 cat_scenario [of ascii_lower cat_dict False] by simp
qed

text \<open>
  Claim C2, as stated: whenever the primary converter is available and returns a
  non-empty string, that string, trimmed, is the result, the fallback is not called and
  the separator has no influence. It fails when the returned string is non-empty but all
  whitespace: for the phrase \<open>cat\<close> and a converter that returns one space the fallback
  is called, and the result is \<open>k|a|t\<close> with the separator \<open>|\<close> and \<open>k a t\<close> with a
  space (\<open>a\<close> here for U+00E6). It also fails for a blank phrase, for which the converter is not called at all
  and the result is empty whatever the converter would return.
\<close>

theorem primary_wins_counterexample:
  "text_to_ipa ascii_lower (Some (\<lambda>t. Returned [0x20])) (Some cat_dict)
     (ustr ''cat'') (ustr ''|'') False =
     ([Convert (ustr ''cat''), Fallback [ustr ''cat''], Phones_for_word (ustr ''cat'')],
      Inr [0x6B, 0x7C, 0xE6, 0x7C, 0x74]) \<and>
   text_to_ipa ascii_lower (Some (\<lambda>t. Returned [0x20])) (Some cat_dict)
     (ustr ''cat'') (ustr '' '') False =
     ([Convert (ustr ''cat''), Fallback [ustr ''cat''], Phones_for_word (ustr ''cat'')],
      Inr [0x6B, 0x20, 0xE6, 0x20, 0x74]) \<and>
   text_to_ipa ascii_lower (Some (\<lambda>t. Returned (ustr ''x''))) (Some cat_dict)
     [] (ustr '' '') False =
     ([], Inr [])"
  by (simp add: eval_defs)

text \<open>
  Claim C2, amended. For a phrase that is not blank, when the primary converter is
  available and, called with the trimmed phrase, returns a string that is not blank
  (not empty after trimming), \<open>text_to_ipa\<close> returns that string trimmed. The only effect
  is the one call of the converter: the fallback and the dictionary are not called. The
  result is the same for every separator, dictionary and debug flag.
\<close>

theorem primary_wins:
  "str_strip text \<noteq> [] \<Longrightarrow> convert (str_strip text) = Returned res \<Longrightarrow> str_strip res \<noteq> [] \<Longrightarrow>
   text_to_ipa lower (Some convert) pronouncing text sep debug =
     ([Convert (str_strip text)], Inr (str_strip res))"
  by (auto simp add: text_to_ipa_def try_primary_def Let_def str_strip_def)

theorem primary_wins_witness:
  "str_strip (ustr '' best kept '') \<noteq> [] \<and> str_strip (ustr '' b k '') \<noteq> [] \<and>
   text_to_ipa ascii_lower (Some (\<lambda>t. Returned (ustr '' b k '')))
     None (ustr '' best kept '') (ustr ''|'') True =
   ([Convert (ustr ''best kept'')], Inr (ustr ''b k''))"
proof -
  have h1: "str_strip (ustr '' best kept '') \<noteq> []"
    by (simp add: str_strip_def ustr_def isspace_def)
  have h2: "(\<lambda>t. Returned (ustr '' b k '')) (str_strip (ustr '' best kept '')) =
            Returned (ustr '' b k '')"
    by simp
  have h3: "str_strip (ustr '' b k '') \<noteq> []"
    by (simp add: str_strip_def ustr_def isspace_def)
  show ?thesis
    using primary_wins [OF h1 h2 h3, of ascii_lower None "ustr ''|''" True]
    by (simp add: str_strip_def ustr_def isspace_def)
qed

text \<open>
  What the code returns on the fallback path, for every phrase and separator: all the
  tokens of the word-level fallback's output, joined by the separator. The output is
  split again on whitespace as a whole, so the tokens of a word with a pronunciation are
  its single phones.
\<close>

lemma fallback_result_tokens:
  assumes "str_strip text \<noteq> []"
    and "snd (try_primary ipa (str_strip text) debug) = None"
  shows "snd (text_to_ipa lower ipa (Some phones_for_word) text sep debug) =
         Inr (str_join sep
                (concat (map (\<lambda>w. case phones_for_word (lower w) of
                                     [] \<Rightarrow> [w]
                                   | p # _ \<Rightarrow>
                                       concat (map (\<lambda>symb. str_split (arpabet_symbol_to_ipa lower symb))
                                                   (str_split p)))
                             (str_split text))))"
proof -
  obtain tr out where
    W: "words_to_ipa_with_pronouncing lower (Some phones_for_word) (str_split text) debug =
          (tr, Inr out)"
    by (simp add: words_to_ipa_with_pronouncing_def words_loop_eq)
  obtain tr1 where P: "try_primary ipa (str_strip text) debug = (tr1, None)"
    using assms(2) by (cases "try_primary ipa (str_strip text) debug") simp
  have "snd (text_to_ipa lower ipa (Some phones_for_word) text sep debug) =
        Inr (str_join sep (str_split out))"
    using assms(1) P W by (simp add: text_to_ipa_def Let_def words_of_text)
  then show ?thesis
    using fallback_tokens [OF W] by simp
qed

text \<open>
  Claim C1. On the fallback path the separator should stand between words only, and the
  space-separated phones of each word should stay as the word-level fallback emitted
  them, for every separator (the help text of \<open>--sep\<close> says: separator between words).
  The code does not do this. For the phrase \<open>cat\<close> with the separator \<open>|\<close> the word-level
  fallback emits, for the one word, \<open>k\<close>, U+00E6 and \<open>t\<close> separated by single spaces, and
  \<open>text_to_ipa\<close> returns them separated by \<open>|\<close>: the separator stands between the phones
  of one word, and the phone spacing is not kept.
\<close>

theorem separator_inside_word:
  "snd (words_to_ipa_with_pronouncing ascii_lower (Some cat_dict) [ustr ''cat''] False) =
     Inr [0x6B, 0x20, 0xE6, 0x20, 0x74] \<and>
   snd (text_to_ipa ascii_lower None (Some cat_dict) (ustr ''cat'') (ustr ''|'') False) =
     Inr [0x6B, 0x7C, 0xE6, 0x7C, 0x74]"
  by (simp add: eval_defs)

section \<open>Properties of the command line\<close>

text \<open>
  Claim C10. When \<open>--text\<close> is given as the empty string and \<open>--file\<close> is not given, the
  run is the one of a command line with neither option: the help text goes to the error
  stream and the exit code is 2; no line is printed to the standard output.
\<close>

theorem empty_text_is_usage_error:
  "args_text a = Some [] \<Longrightarrow> args_file a = None \<Longrightarrow>
   main lower ipa pronouncing open_file a = ([Print_help], 2) \<and>
   main lower ipa pronouncing open_file a =
     main lower ipa pronouncing open_file (a\<lparr>args_text := None\<rparr>)"
  by (simp add: main_def)

theorem empty_text_is_usage_error_witness:
  "main ascii_lower None (Some cat_dict) (\<lambda>p. Open_raised FileNotFoundError)
     \<lparr>args_text = Some [], args_file = None, args_sep = ustr '' '', args_debug = False\<rparr> =
   ([Print_help], 2)"
  using empty_text_is_usage_error
          [of "\<lparr>args_text = Some [], args_file = None, args_sep = ustr '' '', args_debug = False\<rparr>"
              ascii_lower None "Some cat_dict" "\<lambda>p. Open_raised FileNotFoundError"]
  by simp

end
